theory Spec2Isabelle
  imports Main "HOL-Library.AList"
begin

section \<open>Data model of \<open>server.py\<close>\<close>

text \<open>
  The server keeps two module-level dictionaries, \<open>users\<close> and \<open>files\<close>, writes \<open>users\<close> to
  \<open>users.json\<close> after each registration, and stores uploaded content in the folder
  \<open>uploads\<close>. A Python dictionary keeps its keys in insertion order, assignment to an
  existing key keeps the key's position, and \<open>del\<close> removes the key: an association list
  with \<open>AList.update\<close> and \<open>AList.delete\<close> behaves the same way, and \<open>map_of\<close> is the
  lookup. Request fields read with \<open>data.get\<close> are \<open>string option\<close> (\<open>None\<close> when the key is
  absent from the JSON object).
\<close>

type_synonym content = string

record user =
  password :: string
  user_files :: "string list"

record file_data =
  owner :: string
  shared_with :: "string list"

record state =
  users :: "(string \<times> user) list"
  files :: "(string \<times> file_data) list"
  users_json :: "(string \<times> user) list option"
  disk :: "(string \<times> content) list"

text \<open>
  A handler returns a JSON body (or an attachment) and a status code. An exception that no
  handler catches makes Flask answer with status 500.
\<close>

datatype body =
    Error string
  | Message string
  | AccessToken string
  | FileLists "string list" "string list"
  | Attachment string content
  | Unhandled string

type_synonym response = "body \<times> nat"

text \<open>
  The libraries the handlers call are parameters: \<open>bcrypt.hashpw\<close> (applied to the password
  and the salt that \<open>bcrypt.gensalt\<close> drew), \<open>bcrypt.checkpw\<close> and \<open>create_access_token\<close>.
  The decorator \<open>jwt_required\<close> has run before a protected handler starts; the handler's
  first argument below is the value of \<open>get_jwt_identity()\<close>.
\<close>

record externals =
  hashpw :: "string \<Rightarrow> string \<Rightarrow> string"
  checkpw :: "string \<Rightarrow> string \<Rightarrow> bool"
  create_access_token :: "string \<Rightarrow> string"

text \<open>Python's \<open>not x\<close> for a value that is \<open>None\<close> or a string.\<close>

fun py_not :: "string option \<Rightarrow> bool" where
  "py_not None = True"
| "py_not (Some v) = (v = [])"

text \<open>\<open>k in d\<close> for a dictionary \<open>d\<close>.\<close>

definition has_key :: "('k \<times> 'v) list \<Rightarrow> 'k \<Rightarrow> bool" where
  "has_key d k = (k \<in> set (map fst d))"

section \<open>The upload folder\<close>

definition UPLOAD_FOLDER :: string where
  "UPLOAD_FOLDER = ''uploads''"

text \<open>\<open>os.path.join\<close> of two components, on POSIX.\<close>

definition path_join :: "string \<Rightarrow> string \<Rightarrow> string" where
  "path_join a b =
     (if b \<noteq> [] \<and> hd b = CHR ''/'' then b
      else if a = [] \<or> last a = CHR ''/'' then a @ b
      else a @ ''/'' @ b)"

text \<open>
  Modelled from the spec: the file system and \<open>FileStorage.save\<close> are not part of the
  repository. The spec says that an upload "stores content under that key, replacing any
  existing content with the same key", that a delete "removes content from storage (missing
  underlying content is tolerated, not an error)", and that storage failures surface as "a
  generic internal failure distinct from the above kinds". The folder itself is created
  when the module is loaded (\<open>os.makedirs\<close>), so the paths \<open>uploads\<close> and \<open>uploads/\<close> name
  a directory. \<open>file.save(dst)\<close> opens \<open>dst\<close> for writing: on a directory that raises
  \<open>IsADirectoryError\<close>, on any other path under the folder it writes the content,
  replacing what was there. \<open>os.remove\<close> of a directory raises as well. Other failures of
  the storage (disk full, permissions, over-long names) are not part of the model.
\<close>

definition is_dir :: "string \<Rightarrow> bool" where
  "is_dir p = (p = UPLOAD_FOLDER \<or> p = UPLOAD_FOLDER @ ''/'')"

definition save :: "string \<Rightarrow> content \<Rightarrow> (string \<times> content) list \<Rightarrow> (string \<times> content) list option" where
  "save dst data d = (if is_dir dst then None else Some (AList.update dst data d))"

definition path_exists :: "string \<Rightarrow> (string \<times> content) list \<Rightarrow> bool" where
  "path_exists p d = (is_dir p \<or> has_key d p)"

definition os_remove :: "string \<Rightarrow> (string \<times> content) list \<Rightarrow> (string \<times> content) list option" where
  "os_remove p d = (if is_dir p then None else Some (AList.delete p d))"

definition send_file :: "string \<Rightarrow> (string \<times> content) list \<Rightarrow> response" where
  "send_file p d =
     (case map_of d p of
        None \<Rightarrow> (Unhandled ''FileNotFoundError'', 500)
      | Some data \<Rightarrow> (Attachment p data, 200))"

section \<open>Sanitising an uploaded file name\<close>

text \<open>
  Modelled from the spec: \<open>secure_filename\<close> belongs to the library werkzeug, which is not
  part of the repository. The spec says that the raw name is sanitised "to a safe storage
  key (strip directory separators and traversal sequences, collapse to a filesystem-safe
  token)". The model follows the library's steps on POSIX for ASCII text: characters
  outside ASCII are dropped, each \<open>/\<close> becomes a blank, the words between blanks are joined
  with \<open>_\<close>, every character outside \<open>A-Z a-z 0-9 _ . -\<close> is removed, and leading and
  trailing \<open>.\<close> and \<open>_\<close> are stripped.
\<close>

definition is_space :: "char \<Rightarrow> bool" where
  "is_space c = (of_char c \<in> set [9, 10, 11, 12, 13, 28, 29, 30, 31, 32 :: nat])"

definition safe_char :: "char \<Rightarrow> bool" where
  "safe_char c =
     (c \<in> set ''ABCDEFGHIJKLMNOPQRSTUVWXYZabcdefghijklmnopqrstuvwxyz0123456789_.-'')"

fun split_acc :: "string \<Rightarrow> string \<Rightarrow> string list" where
  "split_acc w [] = (if w = [] then [] else [w])"
| "split_acc w (c # cs) =
     (if is_space c then (if w = [] then split_acc [] cs else w # split_acc [] cs)
      else split_acc (w @ [c]) cs)"

definition split :: "string \<Rightarrow> string list" where
  "split s = split_acc [] s"

fun join :: "string \<Rightarrow> string list \<Rightarrow> string" where
  "join sep [] = []"
| "join sep [w] = w"
| "join sep (w # v # ws) = w @ sep @ join sep (v # ws)"

definition strip :: "string \<Rightarrow> string \<Rightarrow> string" where
  "strip cs s =
     rev (dropWhile (\<lambda>c. c \<in> set cs) (rev (dropWhile (\<lambda>c. c \<in> set cs) s)))"

definition secure_filename :: "string \<Rightarrow> string" where
  "secure_filename raw =
     strip ''._''
       (filter safe_char
         (join ''_''
           (split (map (\<lambda>c. if c = CHR ''/'' then CHR '' '' else c)
                       (filter (\<lambda>c. (of_char c :: nat) < 128) raw)))))"

section \<open>The handlers\<close>

definition load_users :: "(string \<times> user) list option \<Rightarrow> (string \<times> user) list" where
  "load_users f = (case f of None \<Rightarrow> [] | Some us \<Rightarrow> us)"

text \<open>
  The state once the module is loaded: \<open>users\<close> read from \<open>users.json\<close> (empty when the file
  does not exist), no file metadata, and whatever the upload folder holds.
\<close>

definition startup :: "(string \<times> user) list option \<Rightarrow> (string \<times> content) list \<Rightarrow> state" where
  "startup f d = \<lparr>users = load_users f, files = [], users_json = f, disk = d\<rparr>"

text \<open>
  \<open>save_users\<close> opens \<open>users.json\<close> for writing and dumps \<open>users\<close> into it. Whether the
  file can be opened is a fact of the environment at the moment of the call, given as the
  argument \<open>writable\<close>: when it cannot, \<open>open\<close> raises \<open>OSError\<close> and the file stays as it
  was.
\<close>

definition save_users :: "bool \<Rightarrow> state \<Rightarrow> state option" where
  "save_users writable s = (if writable then Some (s\<lparr>users_json := Some (users s)\<rparr>) else None)"

text \<open>
  \<open>register\<close> assigns \<open>users[username]\<close> first and calls \<open>save_users()\<close> afterwards: when the
  write raises, the request is answered with 500 and the new user stays in \<open>users\<close>.
\<close>

definition register ::
  "externals \<Rightarrow> string option \<Rightarrow> string option \<Rightarrow> string \<Rightarrow> bool \<Rightarrow> state \<Rightarrow>
     response \<times> state" where
  "register ext username passwd salt writable s =
     (if py_not username \<or> py_not passwd then
        ((Error ''Missing username or password'', 400), s)
      else if has_key (users s) (the username) then
        ((Error ''Username already exists'', 400), s)
      else
        let s1 = s\<lparr>users := AList.update (the username)
                   \<lparr>password = hashpw ext (the passwd) salt, user_files = []\<rparr> (users s)\<rparr>
        in case save_users writable s1 of
             None \<Rightarrow> ((Unhandled ''OSError'', 500), s1)
           | Some s2 \<Rightarrow> ((Message ''User registered successfully'', 201), s2))"

definition login ::
  "externals \<Rightarrow> string option \<Rightarrow> string option \<Rightarrow> state \<Rightarrow> response \<times> state" where
  "login ext username passwd s =
     (if py_not username \<or> py_not passwd then
        ((Error ''Missing username or password'', 400), s)
      else
        case map_of (users s) (the username) of
          None \<Rightarrow> ((Error ''Invalid username or password'', 401), s)
        | Some user \<Rightarrow>
            if \<not> checkpw ext (the passwd) (password user) then
              ((Error ''Invalid username or password'', 401), s)
            else ((AccessToken (create_access_token ext (the username)), 200), s))"

definition owned_files :: "string \<Rightarrow> (string \<times> file_data) list \<Rightarrow> string list" where
  "owned_files username fs = [f. (f, data) \<leftarrow> fs, owner data = username]"

definition shared_files :: "string \<Rightarrow> (string \<times> file_data) list \<Rightarrow> string list" where
  "shared_files username fs = [f. (f, data) \<leftarrow> fs, username \<in> set (shared_with data)]"

definition get_files :: "string \<Rightarrow> state \<Rightarrow> response \<times> state" where
  "get_files username s =
     ((FileLists (owned_files username (files s)) (shared_files username (files s)), 200), s)"

text \<open>
  The request of an upload carries, under the key \<open>file\<close>, a file name and the content, or
  nothing.
\<close>

definition upload_file :: "string \<Rightarrow> (string \<times> content) option \<Rightarrow> state \<Rightarrow> response \<times> state" where
  "upload_file username file s =
     (case file of
        None \<Rightarrow> ((Error ''No file provided'', 400), s)
      | Some (raw, data) \<Rightarrow>
          if raw = [] then ((Error ''No file selected'', 400), s)
          else
            let filename = secure_filename raw;
                file_path = path_join UPLOAD_FOLDER filename
            in case save file_path data (disk s) of
                 None \<Rightarrow> ((Unhandled ''IsADirectoryError'', 500), s)
               | Some d \<Rightarrow>
                   ((Message ''File uploaded successfully'', 201),
                    s\<lparr>disk := d,
                      files := AList.update filename
                                 \<lparr>owner = username, shared_with = []\<rparr> (files s)\<rparr>))"

definition download_file :: "string \<Rightarrow> string \<Rightarrow> state \<Rightarrow> response \<times> state" where
  "download_file username filename s =
     (case map_of (files s) filename of
        None \<Rightarrow> ((Error ''File not found'', 404), s)
      | Some fd \<Rightarrow>
          if owner fd \<noteq> username \<and> username \<notin> set (shared_with fd) then
            ((Error ''Access denied'', 403), s)
          else (send_file (path_join UPLOAD_FOLDER filename) (disk s), s))"

definition share_file ::
  "string \<Rightarrow> string option \<Rightarrow> string option \<Rightarrow> state \<Rightarrow> response \<times> state" where
  "share_file username filename target_user s =
     (if py_not filename \<or> py_not target_user then
        ((Error ''Missing filename or target username'', 400), s)
      else
        case map_of (files s) (the filename) of
          None \<Rightarrow> ((Error ''File not found'', 404), s)
        | Some fd \<Rightarrow>
            if owner fd \<noteq> username then
              ((Error ''You can only share files you own'', 403), s)
            else if \<not> has_key (users s) (the target_user) then
              ((Error ''Target user does not exist'', 404), s)
            else
              ((Message ''File shared successfully'', 200),
               if the target_user \<notin> set (shared_with fd) then
                 s\<lparr>files := AList.update (the filename)
                      (fd\<lparr>shared_with := shared_with fd @ [the target_user]\<rparr>) (files s)\<rparr>
               else s))"

definition revoke_access ::
  "string \<Rightarrow> string option \<Rightarrow> string option \<Rightarrow> state \<Rightarrow> response \<times> state" where
  "revoke_access username filename target_user s =
     (if py_not filename \<or> py_not target_user then
        ((Error ''Missing filename or target username'', 400), s)
      else
        case map_of (files s) (the filename) of
          None \<Rightarrow> ((Error ''File not found'', 404), s)
        | Some fd \<Rightarrow>
            if owner fd \<noteq> username then
              ((Error ''You can only revoke access to files you own'', 403), s)
            else
              ((Message ''Access revoked successfully'', 200),
               if the target_user \<in> set (shared_with fd) then
                 s\<lparr>files := AList.update (the filename)
                      (fd\<lparr>shared_with := remove1 (the target_user) (shared_with fd)\<rparr>) (files s)\<rparr>
               else s))"

definition delete_file :: "string \<Rightarrow> string \<Rightarrow> state \<Rightarrow> response \<times> state" where
  "delete_file username filename s =
     (case map_of (files s) filename of
        None \<Rightarrow> ((Error ''File not found'', 404), s)
      | Some fd \<Rightarrow>
          if owner fd \<noteq> username then
            ((Error ''You can only delete files you own'', 403), s)
          else
            let file_path = path_join UPLOAD_FOLDER filename
            in case (if path_exists file_path (disk s) then os_remove file_path (disk s)
                     else Some (disk s)) of
                 None \<Rightarrow> ((Unhandled ''IsADirectoryError'', 500), s)
               | Some d \<Rightarrow>
                   ((Message ''File deleted successfully'', 200),
                    s\<lparr>disk := d, files := AList.delete filename (files s)\<rparr>))"

section \<open>Sequences of requests\<close>

datatype operation =
    Register "string option" "string option" string bool
  | Login "string option" "string option"
  | ListFiles string
  | Upload string "(string \<times> content) option"
  | Download string string
  | Share string "string option" "string option"
  | Revoke string "string option" "string option"
  | Delete string string

fun exec :: "externals \<Rightarrow> operation \<Rightarrow> state \<Rightarrow> response \<times> state" where
  "exec ext (Register username passwd salt writable) s =
     register ext username passwd salt writable s"
| "exec ext (Login username passwd) s = login ext username passwd s"
| "exec ext (ListFiles username) s = get_files username s"
| "exec ext (Upload username file) s = upload_file username file s"
| "exec ext (Download username filename) s = download_file username filename s"
| "exec ext (Share username filename target_user) s = share_file username filename target_user s"
| "exec ext (Revoke username filename target_user) s = revoke_access username filename target_user s"
| "exec ext (Delete username filename) s = delete_file username filename s"

fun run :: "externals \<Rightarrow> operation list \<Rightarrow> state \<Rightarrow> state" where
  "run ext [] s = s"
| "run ext (op # ops) s = run ext ops (snd (exec ext op s))"


section \<open>Properties of a state\<close>

text \<open>No file record lists its own owner among the users it is shared with.\<close>

definition owner_not_shared :: "state \<Rightarrow> bool" where
  "owner_not_shared s = list_all (\<lambda>(f, fd). owner fd \<notin> set (shared_with fd)) (files s)"

text \<open>Every user a file is shared with is a key of \<open>users\<close>.\<close>

definition shares_registered :: "state \<Rightarrow> bool" where
  "shares_registered s =
     list_all (\<lambda>(f, fd). list_all (has_key (users s)) (shared_with fd)) (files s)"

text \<open>No file that \<open>username\<close> owns lists \<open>username\<close> among the users it is shared with.\<close>

definition not_shared_with_self :: "string \<Rightarrow> state \<Rightarrow> bool" where
  "not_shared_with_self username s =
     list_all (\<lambda>(f, fd). owner fd = username \<longrightarrow> username \<notin> set (shared_with fd)) (files s)"

text \<open>No share list names a user twice.\<close>

definition shares_distinct :: "state \<Rightarrow> bool" where
  "shares_distinct s = list_all (\<lambda>(f, fd). distinct (shared_with fd)) (files s)"

text \<open>A share request whose target is the caller.\<close>

fun self_share :: "operation \<Rightarrow> bool" where
  "self_share (Share username filename target_user) = (target_user = Some username)"
| "self_share _ = False"


section \<open>Concrete inputs\<close>

text \<open>
  A stand-in for the libraries, used where a statement is evaluated on a concrete input:
  the hash is the salt followed by the password, and a password matches a hash that ends
  with it.
\<close>

definition stub_ext :: externals where
  "stub_ext =
     \<lparr>hashpw = (\<lambda>p salt. salt @ p),
      checkpw = (\<lambda>p h. drop (length h - length p) h = p),
      create_access_token = (\<lambda>u. u)\<rparr>"

text \<open>
  Three users register; \<open>alice\<close> uploads \<open>a.txt\<close> and shares it with \<open>bob\<close>.
\<close>

definition sharing_trace :: "operation list" where
  "sharing_trace =
     [Register (Some ''alice'') (Some ''pw1'') ''s1'' True,
      Register (Some ''bob'') (Some ''pw2'') ''s2'' True,
      Register (Some ''carol'') (Some ''pw3'') ''s3'' True,
      Upload ''alice'' (Some (''a.txt'', ''data'')),
      Share ''alice'' (Some ''a.txt'') (Some ''bob'')]"

definition three_users :: "(string \<times> user) list" where
  "three_users =
     [(''alice'', \<lparr>password = ''s1pw1'', user_files = []\<rparr>),
      (''bob'', \<lparr>password = ''s2pw2'', user_files = []\<rparr>),
      (''carol'', \<lparr>password = ''s3pw3'', user_files = []\<rparr>)]"

definition shared_state :: state where
  "shared_state =
     \<lparr>users = three_users,
      files = [(''a.txt'', \<lparr>owner = ''alice'', shared_with = [''bob'']\<rparr>)],
      users_json = Some three_users,
      disk = [(''uploads/a.txt'', ''data'')]\<rparr>"

text \<open>
  Then \<open>bob\<close> uploads \<open>b.txt\<close> and shares it with \<open>alice\<close> and with \<open>bob\<close>.
\<close>

definition two_files_trace :: "operation list" where
  "two_files_trace =
     sharing_trace @
     [Upload ''bob'' (Some (''b.txt'', ''more'')),
      Share ''bob'' (Some ''b.txt'') (Some ''alice''),
      Share ''bob'' (Some ''b.txt'') (Some ''bob'')]"

definition two_files_state :: state where
  "two_files_state =
     \<lparr>users = three_users,
      files = [(''a.txt'', \<lparr>owner = ''alice'', shared_with = [''bob'']\<rparr>),
               (''b.txt'', \<lparr>owner = ''bob'', shared_with = [''alice'', ''bob'']\<rparr>)],
      users_json = Some three_users,
      disk = [(''uploads/a.txt'', ''data''), (''uploads/b.txt'', ''more'')]\<rparr>"

text \<open>The three users are registered and nothing has been uploaded.\<close>

definition no_files_state :: state where
  "no_files_state = startup (Some three_users) []"

text \<open>\<open>alice\<close> registers, uploads \<open>a.txt\<close> and names \<open>alice\<close> as the target of a share request.\<close>

definition self_share_trace :: "operation list" where
  "self_share_trace =
     [Register (Some ''alice'') (Some ''pw1'') ''s1'' True,
      Upload ''alice'' (Some (''a.txt'', ''data'')),
      Share ''alice'' (Some ''a.txt'') (Some ''alice'')]"

section \<open>Auxiliary facts\<close>

lemma set_update_subset: "set (AList.update k v al) \<subseteq> insert (k, v) (set al)"
  by (induction al) auto

lemma list_all_update:
  "P (k, v) \<Longrightarrow> list_all P al \<Longrightarrow> list_all P (AList.update k v al)"
  using set_update_subset [of k v al] by (auto simp: list_all_iff)

lemma list_all_delete: "list_all P al \<Longrightarrow> list_all P (AList.delete k al)"
  by (auto simp: list_all_iff AList.delete_eq)

lemma has_key_map_of: "has_key d k \<longleftrightarrow> map_of d k \<noteq> None"
  by (simp add: has_key_def map_of_eq_None_iff)

lemma has_key_update: "has_key d t \<Longrightarrow> has_key (AList.update k v d) t"
  by (simp add: has_key_def AList.dom_update)

lemma secure_filename_Nil: "secure_filename [] = []"
  by (simp add: secure_filename_def strip_def split_def)

lemma secure_filename_dots: "secure_filename ''..'' = []"
  by (simp add: secure_filename_def strip_def split_def safe_char_def is_space_def)

lemma secure_filename_a_txt: "secure_filename ''a.txt'' = ''a.txt''"
  by (simp add: secure_filename_def strip_def split_def safe_char_def is_space_def)

lemma not_is_dir_path_join:
  "filename \<noteq> [] \<Longrightarrow> \<not> is_dir (path_join UPLOAD_FOLDER filename)"
  by (cases filename) (auto simp: is_dir_def path_join_def UPLOAD_FOLDER_def)

lemma is_dir_path_join_Nil: "is_dir (path_join UPLOAD_FOLDER [])"
  by (simp add: is_dir_def path_join_def UPLOAD_FOLDER_def)

lemma shared_state_reached: "run stub_ext sharing_trace (startup None []) = shared_state"
  by (simp add: sharing_trace_def startup_def load_users_def register_def save_users_def upload_file_def
      share_file_def has_key_def stub_ext_def secure_filename_a_txt path_join_def
      save_def is_dir_def UPLOAD_FOLDER_def shared_state_def three_users_def Let_def)

lemma run_append: "run ext (ops @ ops') s = run ext ops' (run ext ops s)"
  by (induction ops arbitrary: s) simp_all

lemma secure_filename_b_txt: "secure_filename ''b.txt'' = ''b.txt''"
  by (simp add: secure_filename_def strip_def split_def safe_char_def is_space_def)

lemma two_files_state_reached:
  "run stub_ext two_files_trace (startup None []) = two_files_state"
  by (simp add: two_files_trace_def run_append shared_state_reached)
     (simp add: shared_state_def two_files_state_def upload_file_def share_file_def has_key_def
        three_users_def secure_filename_b_txt path_join_def save_def is_dir_def
        UPLOAD_FOLDER_def Let_def)

lemma self_shared_file_in_both_lists:
  assumes "\<not> not_shared_with_self caller s"
  shows "set (owned_files caller (files s)) \<inter> set (shared_files caller (files s)) \<noteq> {}"
proof -
  from assms obtain f fd where "(f, fd) \<in> set (files s)" "owner fd = caller"
    "caller \<in> set (shared_with fd)"
    by (auto simp: not_shared_with_self_def list_all_iff)
  then have "f \<in> set (owned_files caller (files s))" "f \<in> set (shared_files caller (files s))"
    by (auto simp: owned_files_def shared_files_def)
  then show ?thesis by auto
qed

lemma self_share_files:
  "files (run stub_ext self_share_trace (startup None [])) =
     [(''a.txt'', \<lparr>owner = ''alice'', shared_with = [''alice'']\<rparr>)]"
  by (simp add: self_share_trace_def startup_def load_users_def register_def save_users_def upload_file_def
      share_file_def has_key_def stub_ext_def secure_filename_a_txt path_join_def
      save_def is_dir_def UPLOAD_FOLDER_def Let_def)

section \<open>What one request does to the two dictionaries\<close>

lemma map_of_entry: "map_of al k = Some v \<Longrightarrow> list_all P al \<Longrightarrow> P (k, v)"
  by (auto simp: list_all_iff dest: map_of_SomeD)

lemma register_files: "files (snd (register ext u p salt w s)) = files s"
  by (simp add: register_def save_users_def Let_def)

lemma register_users:
  "has_key (users s) k \<Longrightarrow> has_key (users (snd (register ext u p salt w s))) k"
  by (simp add: register_def save_users_def Let_def has_key_update)

lemma upload_file_users: "users (snd (upload_file u file s)) = users s"
  by (simp add: upload_file_def Let_def split: option.splits prod.splits)

lemma upload_file_files:
  "files (snd (upload_file u file s)) = files s \<or>
   (\<exists>filename. files (snd (upload_file u file s)) =
      AList.update filename \<lparr>owner = u, shared_with = []\<rparr> (files s))"
  by (auto simp: upload_file_def Let_def split: option.splits prod.splits)

lemma share_file_users: "users (snd (share_file u fn t s)) = users s"
  by (simp add: share_file_def split: option.splits)

lemma share_file_files:
  "files (snd (share_file u fn t s)) = files s \<or>
   (\<exists>f tu fd. fn = Some f \<and> t = Some tu \<and> map_of (files s) f = Some fd \<and> owner fd = u \<and>
      has_key (users s) tu \<and> tu \<notin> set (shared_with fd) \<and>
      files (snd (share_file u fn t s)) =
        AList.update f (fd\<lparr>shared_with := shared_with fd @ [tu]\<rparr>) (files s))"
  by (cases fn; cases t) (simp_all add: share_file_def split: option.splits)

lemma revoke_access_users: "users (snd (revoke_access u fn t s)) = users s"
  by (simp add: revoke_access_def split: option.splits)

lemma revoke_access_files:
  "files (snd (revoke_access u fn t s)) = files s \<or>
   (\<exists>f tu fd. fn = Some f \<and> t = Some tu \<and> map_of (files s) f = Some fd \<and> owner fd = u \<and>
      tu \<in> set (shared_with fd) \<and>
      files (snd (revoke_access u fn t s)) =
        AList.update f (fd\<lparr>shared_with := remove1 tu (shared_with fd)\<rparr>) (files s))"
  by (cases fn; cases t) (simp_all add: revoke_access_def split: option.splits)

lemma delete_file_users: "users (snd (delete_file u fn s)) = users s"
  by (simp add: delete_file_def Let_def split: option.splits)

lemma delete_file_files:
  "files (snd (delete_file u fn s)) = files s \<or>
   files (snd (delete_file u fn s)) = AList.delete fn (files s)"
  by (simp add: delete_file_def Let_def split: option.splits)

lemma login_state: "snd (login ext u p s) = s"
  by (simp add: login_def split: option.splits)

lemma get_files_state: "snd (get_files u s) = s"
  by (simp add: get_files_def)

lemma download_file_state: "snd (download_file u fn s) = s"
  by (simp add: download_file_def split: option.splits)


lemma exec_users: "has_key (users s) k \<Longrightarrow> has_key (users (snd (exec ext op s))) k"
  by (cases op)
     (simp_all add: register_users login_state get_files_state upload_file_users
        download_file_state share_file_users revoke_access_users delete_file_users)

lemma exec_files:
  "files (snd (exec ext op s)) = files s
   \<or> (\<exists>u filename. files (snd (exec ext op s)) =
        AList.update filename \<lparr>owner = u, shared_with = []\<rparr> (files s))
   \<or> (\<exists>u f tu fd. op = Share u (Some f) (Some tu) \<and> map_of (files s) f = Some fd \<and>
        owner fd = u \<and> has_key (users s) tu \<and> tu \<notin> set (shared_with fd) \<and>
        files (snd (exec ext op s)) =
          AList.update f (fd\<lparr>shared_with := shared_with fd @ [tu]\<rparr>) (files s))
   \<or> (\<exists>f tu fd. map_of (files s) f = Some fd \<and>
        files (snd (exec ext op s)) =
          AList.update f (fd\<lparr>shared_with := remove1 tu (shared_with fd)\<rparr>) (files s))
   \<or> (\<exists>fn. files (snd (exec ext op s)) = AList.delete fn (files s))"
proof (cases op)
  case (Register u p salt w)
  then show ?thesis by (simp add: register_files)
next
  case (Login u p)
  then show ?thesis by (simp add: login_state)
next
  case (ListFiles u)
  then show ?thesis by (simp add: get_files_state)
next
  case (Upload u upl)
  then show ?thesis using upload_file_files [of u upl s] by auto
next
  case (Download u fn)
  then show ?thesis by (simp add: download_file_state)
next
  case (Share u fn t)
  then show ?thesis using share_file_files [of u fn t s] by auto
next
  case (Revoke u fn t)
  then show ?thesis using revoke_access_files [of u fn t s] by auto
next
  case (Delete u fn)
  then show ?thesis using delete_file_files [of u fn s] by auto
qed


lemma exec_shares_registered:
  assumes "shares_registered s"
  shows "shares_registered (snd (exec ext op s))"
proof -
  let ?s' = "snd (exec ext op s)"
  let ?P = "\<lambda>(f, fd). list_all (has_key (users ?s')) (shared_with fd)"
  have old: "list_all ?P (files s)"
    using assms exec_users [of s _ ext op]
    by (auto simp: shares_registered_def list_all_iff)
  have "list_all ?P (files ?s')"
    using exec_files [of ext op s]
  proof (elim disjE exE conjE)
    assume "files ?s' = files s"
    with old show ?thesis by simp
  next
    fix u filename
    assume "files ?s' = AList.update filename \<lparr>owner = u, shared_with = []\<rparr> (files s)"
    with old show ?thesis by (simp add: list_all_update)
  next
    fix u f tu fd
    assume m: "map_of (files s) f = Some fd" and k: "has_key (users s) tu"
      and e: "files ?s' = AList.update f (fd\<lparr>shared_with := shared_with fd @ [tu]\<rparr>) (files s)"
    from m old have "list_all (has_key (users ?s')) (shared_with fd)"
      by (auto dest: map_of_entry)
    moreover from k have "has_key (users ?s') tu" by (rule exec_users)
    ultimately have "?P (f, fd\<lparr>shared_with := shared_with fd @ [tu]\<rparr>)" by simp
    with old e show ?thesis by (simp add: list_all_update)
  next
    fix f tu fd
    assume m: "map_of (files s) f = Some fd"
      and e: "files ?s' = AList.update f (fd\<lparr>shared_with := remove1 tu (shared_with fd)\<rparr>) (files s)"
    from m old have "list_all (has_key (users ?s')) (shared_with fd)"
      by (auto dest: map_of_entry)
    then have "?P (f, fd\<lparr>shared_with := remove1 tu (shared_with fd)\<rparr>)"
      by (auto simp: list_all_iff dest: notin_set_remove1)
    with old e show ?thesis by (simp add: list_all_update)
  next
    fix fn
    assume "files ?s' = AList.delete fn (files s)"
    with old show ?thesis by (simp add: list_all_delete)
  qed
  then show ?thesis by (simp add: shares_registered_def)
qed

lemma run_shares_registered:
  "shares_registered s \<Longrightarrow> shares_registered (run ext ops s)"
  by (induction ops arbitrary: s) (simp_all add: exec_shares_registered)

lemma exec_entry_invariant:
  assumes old: "list_all P (files s)"
    and upload: "\<And>u f. P (f, \<lparr>owner = u, shared_with = []\<rparr>)"
    and share: "\<And>u f tu fd. op = Share u (Some f) (Some tu) \<Longrightarrow> owner fd = u \<Longrightarrow>
        tu \<notin> set (shared_with fd) \<Longrightarrow> P (f, fd) \<Longrightarrow>
        P (f, fd\<lparr>shared_with := shared_with fd @ [tu]\<rparr>)"
    and revoke: "\<And>f tu fd. P (f, fd) \<Longrightarrow> P (f, fd\<lparr>shared_with := remove1 tu (shared_with fd)\<rparr>)"
  shows "list_all P (files (snd (exec ext op s)))"
  using exec_files [of ext op s]
proof (elim disjE exE conjE)
  assume "files (snd (exec ext op s)) = files s"
  with old show ?thesis by simp
next
  fix u filename
  assume "files (snd (exec ext op s)) =
    AList.update filename \<lparr>owner = u, shared_with = []\<rparr> (files s)"
  with old upload show ?thesis by (simp add: list_all_update)
next
  fix u f tu fd
  assume "op = Share u (Some f) (Some tu)" "map_of (files s) f = Some fd" "owner fd = u"
    "tu \<notin> set (shared_with fd)"
    and e: "files (snd (exec ext op s)) =
      AList.update f (fd\<lparr>shared_with := shared_with fd @ [tu]\<rparr>) (files s)"
  then have "P (f, fd\<lparr>shared_with := shared_with fd @ [tu]\<rparr>)"
    using old by (intro share) (auto dest: map_of_entry)
  with old e show ?thesis by (simp add: list_all_update)
next
  fix f tu fd
  assume "map_of (files s) f = Some fd"
    and e: "files (snd (exec ext op s)) =
      AList.update f (fd\<lparr>shared_with := remove1 tu (shared_with fd)\<rparr>) (files s)"
  then have "P (f, fd\<lparr>shared_with := remove1 tu (shared_with fd)\<rparr>)"
    using old by (intro revoke) (auto dest: map_of_entry)
  with old e show ?thesis by (simp add: list_all_update)
next
  fix fn
  assume "files (snd (exec ext op s)) = AList.delete fn (files s)"
  with old show ?thesis by (simp add: list_all_delete)
qed

lemma exec_shares_distinct:
  "shares_distinct s \<Longrightarrow> shares_distinct (snd (exec ext op s))"
  unfolding shares_distinct_def
  by (rule exec_entry_invariant) (simp_all add: distinct_remove1)

lemma run_shares_distinct: "shares_distinct s \<Longrightarrow> shares_distinct (run ext ops s)"
  by (induction ops arbitrary: s) (simp_all add: exec_shares_distinct)

lemma startup_shares_distinct: "shares_distinct (startup f d)"
  by (simp add: shares_distinct_def startup_def)

lemma exec_owner_not_shared:
  "owner_not_shared s \<Longrightarrow> \<not> self_share op \<Longrightarrow> owner_not_shared (snd (exec ext op s))"
  unfolding owner_not_shared_def
  by (rule exec_entry_invariant) (auto dest: notin_set_remove1)

lemma share_file_twice:
  "share_file u fn t (snd (share_file u fn t s)) = share_file u fn t s"
  by (cases fn; cases t)
     (auto simp: share_file_def AList.update_conv' split: option.splits)

lemma revoke_access_twice:
  assumes "shares_distinct s"
  shows "revoke_access u fn t (snd (revoke_access u fn t s)) = revoke_access u fn t s"
proof (cases "snd (revoke_access u fn t s) = s")
  case True
  then show ?thesis by simp
next
  case False
  then obtain f tu fd where a: "fn = Some f" "t = Some tu" "f \<noteq> []" "tu \<noteq> []"
      "map_of (files s) f = Some fd" "owner fd = u" "tu \<in> set (shared_with fd)"
    by (cases fn; cases t) (auto simp: revoke_access_def split: option.splits if_splits)
  with assms have "distinct (shared_with fd)"
    by (auto simp: shares_distinct_def dest: map_of_entry)
  then have "tu \<notin> set (remove1 tu (shared_with fd))" by simp
  with a show ?thesis
    by (simp add: revoke_access_def AList.update_conv')
qed

section \<open>Invariants of the reachable states\<close>

text \<open>
  As stated, claim C1 says that in every state reached from the empty one no record's share
  list contains the record's owner. The handler \<open>share_file\<close> compares the target with the
  keys of \<open>users\<close> and with the share list, never with the owner: after \<open>alice\<close> registers,
  uploads \<open>a.txt\<close> and shares it with \<open>alice\<close>, the record of \<open>a.txt\<close> has owner \<open>alice\<close> and
  share list \<open>[alice]\<close>.
\<close>

theorem owner_shared_counterexample:
  "files (run stub_ext self_share_trace (startup None [])) =
     [(''a.txt'', \<lparr>owner = ''alice'', shared_with = [''alice'']\<rparr>)]
   \<and> \<not> owner_not_shared (run stub_ext self_share_trace (startup None []))"
  by (simp add: self_share_files owner_not_shared_def)

text \<open>
  Claim C1, amended. In every state reached from start-up by a sequence of requests none of
  which is a share request whose target is its own caller, no file record's share list
  contains the record's owner.
\<close>

theorem owner_never_shared:
  "list_all (\<lambda>op. \<not> self_share op) ops \<Longrightarrow> owner_not_shared (run ext ops (startup f d))"
proof -
  have "owner_not_shared s \<Longrightarrow> list_all (\<lambda>op. \<not> self_share op) ops \<Longrightarrow>
      owner_not_shared (run ext ops s)" for s
    by (induction ops arbitrary: s) (simp_all add: exec_owner_not_shared)
  moreover have "owner_not_shared (startup f d)"
    by (simp add: owner_not_shared_def startup_def)
  ultimately show "list_all (\<lambda>op. \<not> self_share op) ops \<Longrightarrow>
      owner_not_shared (run ext ops (startup f d))"
    by simp
qed

theorem owner_never_shared_witness:
  "list_all (\<lambda>op. \<not> self_share op) sharing_trace
   \<and> owner_not_shared (run stub_ext sharing_trace (startup None []))"
proof -
  have h: "list_all (\<lambda>op. \<not> self_share op) sharing_trace"
    by (simp add: sharing_trace_def)
  from owner_never_shared [OF h, of stub_ext None "[]"] h show ?thesis by simp
qed

text \<open>
  Claim C10. In every state reached from start-up by any sequence of requests, every user
  named in the share list of any file record is a key of \<open>users\<close>: \<open>share_file\<close> appends
  only registered users, no handler removes a user, and no other handler adds to a share
  list.
\<close>

theorem shared_users_registered: "shares_registered (run ext ops (startup f d))"
  by (rule run_shares_registered) (simp add: shares_registered_def startup_def)

theorem shared_users_registered_witness:
  "shares_registered (run stub_ext sharing_trace (startup None []))
   \<and> run stub_ext sharing_trace (startup None []) = shared_state"
  using shared_users_registered [of stub_ext sharing_trace None "[]"] shared_state_reached
  by simp

section \<open>Sharing and revoking\<close>

text \<open>
  Claim C7. In every state the server can reach, a share request made twice in succession
  gives the same response and the same state as the request made once, and so does a
  revoke request: sharing with a user who already has access and revoking a user who has
  none change nothing and are answered as the first request was. (For \<open>share_file\<close> this holds in any
  state; for \<open>revoke_access\<close> it rests on the share lists naming no user twice, which every
  reachable state satisfies: \<open>list.remove\<close> takes out one occurrence only.)
\<close>

theorem share_revoke_idempotent:
  assumes "s = run ext ops (startup f d)"
  shows "share_file u fn t (snd (share_file u fn t s)) = share_file u fn t s
    \<and> revoke_access u fn t (snd (revoke_access u fn t s)) = revoke_access u fn t s"
  using assms
  by (simp add: share_file_twice revoke_access_twice run_shares_distinct
      startup_shares_distinct)

theorem share_revoke_idempotent_witness:
  "share_file ''alice'' (Some ''a.txt'') (Some ''carol'')
     (snd (share_file ''alice'' (Some ''a.txt'') (Some ''carol'') shared_state)) =
   share_file ''alice'' (Some ''a.txt'') (Some ''carol'') shared_state
   \<and> revoke_access ''alice'' (Some ''a.txt'') (Some ''bob'')
     (snd (revoke_access ''alice'' (Some ''a.txt'') (Some ''bob'') shared_state)) =
   revoke_access ''alice'' (Some ''a.txt'') (Some ''bob'') shared_state"
  using share_revoke_idempotent [OF shared_state_reached [symmetric],
      of "''alice''" "Some ''a.txt''" "Some ''carol''"]
    share_revoke_idempotent [OF shared_state_reached [symmetric],
      of "''alice''" "Some ''a.txt''" "Some ''bob''"]
  by simp

text \<open>
  As stated, claim C2 says that a share or revoke request on \<open>a.txt\<close> by a caller who does
  not own it is answered with "access denied" (403) whether or not a record of \<open>a.txt\<close>
  exists. Both handlers look the name up before they compare the owner: with no record,
  the answer is "file not found" (404).
\<close>

theorem non_owner_probe_counterexample:
  "share_file ''carol'' (Some ''a.txt'') (Some ''bob'') no_files_state =
     ((Error ''File not found'', 404), no_files_state)
   \<and> revoke_access ''carol'' (Some ''a.txt'') (Some ''bob'') no_files_state =
     ((Error ''File not found'', 404), no_files_state)"
  by (simp add: share_file_def revoke_access_def no_files_state_def startup_def)

text \<open>
  Claim C2, amended. For a non-empty file name and a non-empty target, a share or revoke
  request by a caller who is not the owner of a record under that name leaves the state
  unchanged and is answered with "access denied" (403) when a record exists, and with
  "file not found" (404) when none exists.
\<close>

theorem non_owner_share_revoke:
  assumes "fn \<noteq> []" and "t \<noteq> []"
    and "map_option owner (map_of (files s) fn) \<noteq> Some caller"
  shows "share_file caller (Some fn) (Some t) s =
      (if has_key (files s) fn then (Error ''You can only share files you own'', 403)
       else (Error ''File not found'', 404), s)
    \<and> revoke_access caller (Some fn) (Some t) s =
      (if has_key (files s) fn then (Error ''You can only revoke access to files you own'', 403)
       else (Error ''File not found'', 404), s)"
  using assms
  by (auto simp: share_file_def revoke_access_def has_key_map_of split: option.splits)

theorem non_owner_share_revoke_witness:
  "share_file ''carol'' (Some ''a.txt'') (Some ''bob'') shared_state =
     ((Error ''You can only share files you own'', 403), shared_state)
   \<and> revoke_access ''carol'' (Some ''a.txt'') (Some ''bob'') shared_state =
     ((Error ''You can only revoke access to files you own'', 403), shared_state)
   \<and> share_file ''carol'' (Some ''a.txt'') (Some ''bob'') no_files_state =
     ((Error ''File not found'', 404), no_files_state)"
proof -
  have n: "''a.txt'' \<noteq> []" "''bob'' \<noteq> []" by simp_all
  have a: "map_option owner (map_of (files shared_state) ''a.txt'') \<noteq> Some ''carol''"
    by (simp add: shared_state_def)
  have b: "map_option owner (map_of (files no_files_state) ''a.txt'') \<noteq> Some ''carol''"
    by (simp add: no_files_state_def startup_def)
  have k: "has_key (files shared_state) ''a.txt''" "\<not> has_key (files no_files_state) ''a.txt''"
    by (simp_all add: has_key_def shared_state_def no_files_state_def startup_def)
  from non_owner_share_revoke [OF n a] non_owner_share_revoke [OF n b] k
  show ?thesis by simp
qed

text \<open>
  As stated, claim C3 says that on a file name with no record each of download, share,
  revoke and delete is answered with "file not found". \<open>share_file\<close> and \<open>revoke_access\<close>
  test the two request fields first: with an empty (or absent) target the answer is
  "missing filename or target username" (400), whether or not the file exists.
\<close>

theorem missing_file_counterexample:
  "map_of (files no_files_state) ''ghost.txt'' = None
   \<and> share_file ''carol'' (Some ''ghost.txt'') (Some []) no_files_state =
     ((Error ''Missing filename or target username'', 400), no_files_state)"
  by (simp add: share_file_def no_files_state_def startup_def)

text \<open>
  Claim C3, amended. For every caller and every file name with no record: download and
  delete are answered with "file not found" (404); share and revoke are answered with
  "file not found" (404) when the name and the target are both non-empty, and with the
  invalid-input answer (400) otherwise. In no case is the answer "access denied" (403), and
  the state is unchanged: the lookup comes before the comparison of the owner.
\<close>

theorem missing_file_not_found:
  assumes "map_of (files s) fn = None"
  shows "download_file caller fn s = ((Error ''File not found'', 404), s)
    \<and> delete_file caller fn s = ((Error ''File not found'', 404), s)
    \<and> share_file caller (Some fn) t s =
        (if fn = [] \<or> py_not t then (Error ''Missing filename or target username'', 400)
         else (Error ''File not found'', 404), s)
    \<and> revoke_access caller (Some fn) t s =
        (if fn = [] \<or> py_not t then (Error ''Missing filename or target username'', 400)
         else (Error ''File not found'', 404), s)"
  using assms
  by (simp add: download_file_def delete_file_def share_file_def revoke_access_def)

theorem missing_file_not_found_witness:
  "download_file ''carol'' ''ghost.txt'' shared_state =
     ((Error ''File not found'', 404), shared_state)
   \<and> delete_file ''carol'' ''ghost.txt'' shared_state =
     ((Error ''File not found'', 404), shared_state)
   \<and> share_file ''carol'' (Some ''ghost.txt'') (Some ''bob'') shared_state =
     ((Error ''File not found'', 404), shared_state)
   \<and> revoke_access ''carol'' (Some ''ghost.txt'') (Some ''bob'') shared_state =
     ((Error ''File not found'', 404), shared_state)"
proof -
  have a: "map_of (files shared_state) ''ghost.txt'' = None"
    by (simp add: shared_state_def)
  from missing_file_not_found [OF a, of "''carol''" "Some ''bob''"] show ?thesis by simp
qed

text \<open>
  Claim C6. When the owner of an existing file sends a share request with a non-empty name
  and a non-empty target that is not a registered user, the answer is "target user does
  not exist" (404) and the state is unchanged; the revoke request with the same arguments
  succeeds (200).
\<close>

theorem share_needs_registered_target:
  assumes "fn \<noteq> []" and "t \<noteq> []"
    and "map_of (files s) fn = Some fd" and "owner fd = caller"
    and "\<not> has_key (users s) t"
  shows "share_file caller (Some fn) (Some t) s =
      ((Error ''Target user does not exist'', 404), s)
    \<and> fst (revoke_access caller (Some fn) (Some t) s) =
      (Message ''Access revoked successfully'', 200)"
  using assms by (simp add: share_file_def revoke_access_def)

theorem share_needs_registered_target_witness:
  "share_file ''alice'' (Some ''a.txt'') (Some ''dave'') shared_state =
      ((Error ''Target user does not exist'', 404), shared_state)
   \<and> fst (revoke_access ''alice'' (Some ''a.txt'') (Some ''dave'') shared_state) =
      (Message ''Access revoked successfully'', 200)"
proof -
  have n: "''a.txt'' \<noteq> []" "''dave'' \<noteq> []" by simp_all
  have m: "map_of (files shared_state) ''a.txt'' =
      Some \<lparr>owner = ''alice'', shared_with = [''bob'']\<rparr>"
    by (simp add: shared_state_def)
  have o: "owner \<lparr>owner = ''alice'', shared_with = [''bob'']\<rparr> = ''alice''" by simp
  have k: "\<not> has_key (users shared_state) ''dave''"
    by (simp add: has_key_def shared_state_def three_users_def)
  from share_needs_registered_target [OF n m o k] show ?thesis .
qed

section \<open>Listing\<close>

text \<open>
  As stated, claim C4 says that the two lists returned by \<open>get_files\<close> never share a name.
  After \<open>alice\<close> has uploaded \<open>a.txt\<close> and shared it with \<open>alice\<close>, both lists returned
  to \<open>alice\<close> are \<open>[a.txt]\<close>.
\<close>

theorem listing_overlap_counterexample:
  "fst (get_files ''alice'' (run stub_ext self_share_trace (startup None []))) =
     (FileLists [''a.txt''] [''a.txt''], 200)"
  by (simp add: get_files_def self_share_files owned_files_def shared_files_def)

text \<open>
  Claim C4, amended. For every caller and every state in which no file that the caller owns
  has the caller in its share list, the two lists returned by \<open>get_files\<close> (the files the
  caller owns, the files shared with the caller) have no name in common. What other users
  did with their own files does not matter, and in any other state the two lists do share
  a name. (The first hypothesis says that \<open>files\<close> is a dictionary: each name is a key
  once.)
\<close>

theorem listing_disjoint:
  assumes "distinct (map fst (files s))" and "not_shared_with_self caller s"
    and "fst (get_files caller s) = (FileLists owned shared, status)"
  shows "set owned \<inter> set shared = {}"
proof -
  from assms(3) have o: "owned = owned_files caller (files s)"
    and sh: "shared = shared_files caller (files s)"
    by (simp_all add: get_files_def)
  show ?thesis
  proof (rule ccontr)
    assume "set owned \<inter> set shared \<noteq> {}"
    then obtain f where "f \<in> set owned" "f \<in> set shared" by auto
    with o sh obtain d1 d2 where e: "(f, d1) \<in> set (files s)" "owner d1 = caller"
      "(f, d2) \<in> set (files s)" "caller \<in> set (shared_with d2)"
      by (auto simp: owned_files_def shared_files_def split: if_splits)
    with assms(1) have "d1 = d2" by (meson eq_key_imp_eq_value)
    with e assms(2) show False by (auto simp: not_shared_with_self_def list_all_iff)
  qed
qed

theorem listing_disjoint_witness:
  "distinct (map fst (files two_files_state)) \<and> not_shared_with_self ''alice'' two_files_state
   \<and> \<not> owner_not_shared two_files_state
   \<and> fst (get_files ''alice'' two_files_state) = (FileLists [''a.txt''] [''b.txt''], 200)
   \<and> set [''a.txt''] \<inter> set [''b.txt''] = {}"
proof -
  have a: "distinct (map fst (files two_files_state))" by (simp add: two_files_state_def)
  have b: "not_shared_with_self ''alice'' two_files_state"
    by (simp add: two_files_state_def not_shared_with_self_def)
  have c: "fst (get_files ''alice'' two_files_state) =
      (FileLists [''a.txt''] [''b.txt''], 200)"
    by (simp add: get_files_def two_files_state_def owned_files_def shared_files_def)
  have d: "\<not> owner_not_shared two_files_state"
    by (simp add: two_files_state_def owner_not_shared_def)
  from listing_disjoint [OF a b c] a b c d show ?thesis by simp
qed

section \<open>Uploading\<close>

text \<open>
  Claim C5. For every caller, every content and every raw name whose sanitised form is not
  empty, in every state, the upload succeeds (201) and leaves under the sanitised name a
  record whose owner is the caller and whose share list is empty; in particular a record
  that another user owned and had shared is replaced by one owned by the caller and shared
  with nobody.
\<close>

theorem upload_sets_owner:
  assumes "secure_filename raw \<noteq> []"
  shows "fst (upload_file caller (Some (raw, data)) s) =
      (Message ''File uploaded successfully'', 201)
    \<and> map_of (files (snd (upload_file caller (Some (raw, data)) s))) (secure_filename raw) =
      Some \<lparr>owner = caller, shared_with = []\<rparr>"
proof -
  from assms have "raw \<noteq> []" using secure_filename_Nil by auto
  with assms show ?thesis
    by (simp add: upload_file_def Let_def save_def not_is_dir_path_join AList.update_conv')
qed

theorem upload_sets_owner_witness:
  "map_of (files shared_state) ''a.txt'' = Some \<lparr>owner = ''alice'', shared_with = [''bob'']\<rparr>
   \<and> fst (upload_file ''carol'' (Some (''a.txt'', ''other'')) shared_state) =
      (Message ''File uploaded successfully'', 201)
   \<and> map_of (files (snd (upload_file ''carol'' (Some (''a.txt'', ''other'')) shared_state)))
        ''a.txt'' = Some \<lparr>owner = ''carol'', shared_with = []\<rparr>"
proof -
  have a: "secure_filename ''a.txt'' \<noteq> []" by (simp add: secure_filename_a_txt)
  have b: "map_of (files shared_state) ''a.txt'' =
      Some \<lparr>owner = ''alice'', shared_with = [''bob'']\<rparr>"
    by (simp add: shared_state_def)
  from upload_sets_owner [OF a, of "''carol''" "''other''" shared_state] b
  show ?thesis by (simp add: secure_filename_a_txt)
qed

text \<open>
  As stated, claim C9 says that for a non-empty raw name whose sanitised form is empty,
  such as \<open>..\<close>, the upload succeeds and creates a record under the empty name. The
  handler does test the raw name only, so the request passes the test; but the path it
  then writes to, \<open>os.path.join('uploads', '')\<close>, is \<open>uploads/\<close>, the folder itself:
  \<open>file.save\<close> raises before the assignment to \<open>files\<close> is reached, the answer is 500 and
  no record is created.
\<close>

theorem empty_key_upload_counterexample:
  "''..'' \<noteq> [] \<and> secure_filename ''..'' = []
   \<and> upload_file ''alice'' (Some (''..'', ''data'')) no_files_state =
     ((Unhandled ''IsADirectoryError'', 500), no_files_state)
   \<and> \<not> has_key (files (snd (upload_file ''alice'' (Some (''..'', ''data'')) no_files_state))) []"
  by (simp add: secure_filename_dots upload_file_def Let_def save_def is_dir_path_join_Nil
      has_key_def no_files_state_def startup_def)

text \<open>
  Claim C9, amended. For every non-empty raw name whose sanitised form is empty (there is
  one: \<open>..\<close>), the upload is not answered with the invalid-input answer (400), because the
  emptiness test is applied to the raw name before sanitisation and never after; the
  request goes on to write to the path of the upload folder itself, which raises: the
  answer is 500, no record is created and the state is unchanged.
\<close>

theorem empty_key_upload_fails:
  assumes "raw \<noteq> []" and "secure_filename raw = []"
  shows "upload_file caller (Some (raw, data)) s = ((Unhandled ''IsADirectoryError'', 500), s)"
  using assms by (simp add: upload_file_def Let_def save_def is_dir_path_join_Nil)

theorem empty_key_upload_fails_witness:
  "upload_file ''alice'' (Some (''..'', ''data'')) shared_state =
     ((Unhandled ''IsADirectoryError'', 500), shared_state)"
proof -
  have a: "''..'' \<noteq> []" by simp
  from empty_key_upload_fails [OF a secure_filename_dots] show ?thesis .
qed

section \<open>Failures and the state\<close>




end
